theory Spec2Isabelle
  imports Main "HOL-Library.Sublist"
begin

section \<open>Strings and paths\<close>

text \<open>
  Python's \<open>str.endswith(suffix)\<close> for a single suffix, and for a tuple of suffixes
  (true when any of them matches). The request path is decoded by the library as
  ISO-8859-1, so its characters are bytes, as the characters of \<open>string\<close> are.
\<close>

definition endswith :: "string \<Rightarrow> string \<Rightarrow> bool" where
  "endswith s suf = (length suf \<le> length s \<and> drop (length s - length suf) s = suf)"

definition endswith_any :: "string \<Rightarrow> string list \<Rightarrow> bool" where
  "endswith_any s sufs = list_ex (endswith s) sufs"

text \<open>
  \<open>posixpath.dirname\<close>: everything up to and including the last slash, with trailing
  slashes then stripped unless the head consists of slashes only.
\<close>

definition dirname :: "string \<Rightarrow> string" where
  "dirname p =
     (let head = rev (dropWhile (\<lambda>c. c \<noteq> CHR ''/'') (rev p))
      in if head \<noteq> [] \<and> \<not> list_all (\<lambda>c. c = CHR ''/'') head
         then rev (dropWhile (\<lambda>c. c = CHR ''/'') (rev head))
         else head)"

text \<open>
  \<open>pathlib\<close> on POSIX: a path is parsed into its root (empty, one slash or, for
  exactly two leading slashes, two slashes) and its components, with empty components
  and \<open>.\<close> dropped; \<open>parent\<close> drops the last component, if there is one; \<open>str\<close> joins
  root and components, and the empty path prints as \<open>.\<close>.
\<close>

fun split_slash :: "string \<Rightarrow> string list" where
  "split_slash [] = [[]]"
| "split_slash (c # cs) =
     (if c = CHR ''/'' then [] # split_slash cs
      else (c # hd (split_slash cs)) # tl (split_slash cs))"

fun join_slash :: "string list \<Rightarrow> string" where
  "join_slash [] = []"
| "join_slash [x] = x"
| "join_slash (x # y # ys) = x @ ''/'' @ join_slash (y # ys)"

definition splitroot :: "string \<Rightarrow> string \<times> string" where
  "splitroot p =
     (if take 1 p \<noteq> ''/'' then ([], p)
      else if take 1 (drop 1 p) \<noteq> ''/'' \<or> take 1 (drop 2 p) = ''/'' then (''/'', drop 1 p)
      else (take 2 p, drop 2 p))"

definition parse_path :: "string \<Rightarrow> string \<times> string list" where
  "parse_path p =
     (if p = [] then ([], [])
      else case splitroot p of (root, rel) \<Rightarrow>
        (root, filter (\<lambda>x. x \<noteq> [] \<and> x \<noteq> ''.'') (split_slash rel)))"

definition parent :: "string \<times> string list \<Rightarrow> string \<times> string list" where
  "parent P = (case P of (root, tail) \<Rightarrow> if tail = [] then P else (root, butlast tail))"

definition str_path :: "string \<times> string list \<Rightarrow> string" where
  "str_path P = (case P of (root, tail) \<Rightarrow>
      let s = root @ join_slash tail in if s = [] then ''.'' else s)"

section \<open>The request handlers\<close>

text \<open>
  What a handler queues and writes: the status line, header lines and the blank line
  that ends the header block.
\<close>

datatype hline = Status_line nat string | Header string string | Blank

text \<open>
  The fields of the handler object the two classes read or write: the request method,
  the request target (\<open>self.path\<close>), the headers buffer and the output stream.
\<close>

record handler =
  command :: string
  path :: string
  headers_buffer :: "hline list"
  wfile :: "hline list"

text \<open>
  The two methods of the library's base handler that \<open>end_headers\<close> calls, as the
  library documents them: \<open>send_header\<close> adds the header to the internal buffer;
  the base \<open>end_headers\<close> adds a blank line to the buffer and flushes the buffer to the
  output stream.
\<close>

definition send_header :: "string \<Rightarrow> string \<Rightarrow> handler \<Rightarrow> handler" where
  "send_header keyword v s = s\<lparr>headers_buffer := headers_buffer s @ [Header keyword v]\<rparr>"

definition super_end_headers :: "handler \<Rightarrow> handler" where
  "super_end_headers s = s\<lparr>wfile := wfile s @ headers_buffer s @ [Blank], headers_buffer := []\<rparr>"

subsection \<open>dev/tools/server.py: CustomHTTPRequestHandler\<close>

definition Custom_end_headers :: "handler \<Rightarrow> handler" where
  "Custom_end_headers s =
     (let s1 = send_header ''Access-Control-Allow-Origin'' ''*'' s;
          s2 = send_header ''Access-Control-Allow-Methods'' ''GET, POST, OPTIONS'' s1;
          s3 = send_header ''Access-Control-Allow-Headers'' ''Content-Type'' s2;
          s4 = (if endswith (path s3) ''.js''
                then send_header ''Cache-Control'' ''no-cache'' s3
                else s3)
      in super_end_headers s4)"

text \<open>
  \<open>guess_type\<close> unpacks the result of the inherited \<open>guess_type\<close> into
  \<open>mimetype, encoding\<close> and returns a tuple. The inherited method is library code and
  is a parameter here; what it returns is a Python value. Unpacking into two names
  succeeds on a tuple of two items and on a string of two characters, and raises
  otherwise (\<open>ValueError\<close> for another length, \<open>TypeError\<close> for \<open>None\<close>).
\<close>

datatype pyval = PyNone | PyStr string | PyTuple "pyval list"

datatype pyerror = ValueError | TypeError

fun unpack2 :: "pyval \<Rightarrow> pyerror + pyval \<times> pyval" where
  "unpack2 (PyTuple [a, b]) = Inr (a, b)"
| "unpack2 (PyTuple xs) = Inl ValueError"
| "unpack2 (PyStr [c, d]) = Inr (PyStr [c], PyStr [d])"
| "unpack2 (PyStr cs) = Inl ValueError"
| "unpack2 PyNone = Inl TypeError"

definition Custom_guess_type :: "(string \<Rightarrow> pyval) \<Rightarrow> string \<Rightarrow> pyerror + pyval" where
  "Custom_guess_type super_guess_type p =
     (case unpack2 (super_guess_type p) of
        Inl err \<Rightarrow> Inl err
      | Inr (mimetype, encoding) \<Rightarrow>
          if endswith p ''.js'' then Inr (PyTuple [PyStr ''application/javascript'', encoding])
          else if endswith p ''.ts'' then Inr (PyTuple [PyStr ''application/typescript'', encoding])
          else if endswith p ''.json'' then Inr (PyTuple [PyStr ''application/json'', encoding])
          else Inr (PyTuple [mimetype, encoding]))"

text \<open>
  The library calls the method \<open>do_\<close>\<^emph>\<open>command\<close> of the handler.
  \<open>CustomHTTPRequestHandler\<close> defines none, so each one is the base class's:
  \<open>base c\<close> stands for what the base class does for the request method \<open>c\<close>.
\<close>

definition Custom_handle :: "(string \<Rightarrow> handler \<Rightarrow> handler) \<Rightarrow> handler \<Rightarrow> handler" where
  "Custom_handle base s = base (command s) s"

subsection \<open>server.py: PWAHTTPRequestHandler\<close>

definition PWA_end_headers :: "handler \<Rightarrow> handler" where
  "PWA_end_headers s =
     (let s1 = send_header ''Access-Control-Allow-Origin'' ''*'' s;
          s2 = send_header ''Access-Control-Allow-Methods'' ''GET, POST, OPTIONS'' s1;
          s3 = send_header ''Access-Control-Allow-Headers'' ''Content-Type'' s2;
          s4 = (if endswith (path s3) ''.json''
                then send_header ''Content-Type'' ''application/json'' s3
                else if endswith (path s3) ''.js''
                then send_header ''Content-Type'' ''application/javascript'' s3
                else if endswith (path s3) ''.svg''
                then send_header ''Content-Type'' ''image/svg+xml'' s3
                else s3);
          s5 = (if endswith_any (path s4) [''.js'', ''.css'', ''.svg'', ''.png'', ''.jpg'']
                then send_header ''Cache-Control'' ''public, max-age=31536000'' s4
                else if endswith (path s4) ''.html''
                then send_header ''Cache-Control'' ''no-cache'' s4
                else s4)
      in super_end_headers s5)"

definition PWA_do_GET :: "(handler \<Rightarrow> handler) \<Rightarrow> handler \<Rightarrow> handler" where
  "PWA_do_GET super_do_GET s =
     (let s1 = (if path s = ''/'' then s\<lparr>path := ''/main.html''\<rparr> else s)
      in super_do_GET s1)"

text \<open>
  \<open>PWAHTTPRequestHandler\<close> defines \<open>do_GET\<close> and no other \<open>do_\<close> method.
\<close>

definition PWA_handle :: "(string \<Rightarrow> handler \<Rightarrow> handler) \<Rightarrow> handler \<Rightarrow> handler" where
  "PWA_handle base s =
     (if command s = ''GET'' then PWA_do_GET (base ''GET'') s else base (command s) s)"

subsection \<open>The library's send_head\<close>

text \<open>
  \<open>send_head\<close> of the library's \<open>SimpleHTTPRequestHandler\<close>, which serves \<open>GET\<close> and
  \<open>HEAD\<close>, for a target that does not translate to a directory. Before it queues
  anything it calls the handler's \<open>guess_type\<close> on the translated path; an exception
  raised there leaves \<open>send_head\<close>. Then, whatever it finds (the file, no file, a file
  not modified), it queues a status line and its headers and calls the handler's
  \<open>end_headers\<close>. The two methods of the handler are the first two arguments;
  \<open>translate_path\<close> and what the library queues are the library's and are parameters.
  The body, which \<open>do_GET\<close> copies after \<open>send_head\<close> has returned, is not part of it.
\<close>

definition send_head ::
  "(string \<Rightarrow> pyerror + pyval) \<Rightarrow> (handler \<Rightarrow> handler) \<Rightarrow> (string \<Rightarrow> string) \<Rightarrow>
   (pyval \<Rightarrow> handler \<Rightarrow> handler) \<Rightarrow> handler \<Rightarrow> pyerror + handler" where
  "send_head guess_type end_headers translate_path queue s =
     (case guess_type (translate_path (path s)) of
        Inl err \<Rightarrow> Inl err
      | Inr ctype \<Rightarrow> Inr (end_headers (queue ctype s)))"

section \<open>The two main functions\<close>

text \<open>
  The exceptions the two \<open>try\<close> statements tell apart: \<open>KeyboardInterrupt\<close>,
  \<open>OSError\<close> with its \<open>errno\<close> (which may be \<open>None\<close>) and message, any other
  subclass of \<open>Exception\<close>, and any other \<open>BaseException\<close>.
\<close>

datatype exn =
    KeyboardInterrupt
  | OSError "int option" string
  | Exception string
  | BaseException string

text \<open>
  The lines the programs print. The literals of the source are not ASCII; each
  constructor stands for one \<open>print\<close> call:
  \<^item> \<open>Title_Custom\<close>, \<open>Title_PWA\<close>: the program's name;
  \<^item> \<open>Port_is n\<close>: the port;
  \<^item> \<open>Directory_is\<close>, \<open>Current_directory_is\<close>: the directory, with the value of
    \<open>os.getcwd()\<close>;
  \<^item> \<open>Visit n\<close>: visit \<open>http://localhost:n\<close>; \<open>Open_in_browser n\<close>: please open
    \<open>http://localhost:n\<close> in the browser;
  \<^item> \<open>Starting_on n\<close>: the server is being started on port \<open>n\<close>;
  \<^item> \<open>Press_ctrl_c\<close>: press Ctrl+C to stop the server; \<open>Rule\<close>: fifty dashes;
  \<^item> \<open>Running_at n\<close>: the server runs at \<open>http://localhost:n\<close>;
  \<^item> \<open>Server_stopped\<close>: the server has stopped;
  \<^item> \<open>Start_failed e\<close>: starting the server failed, followed by the text of \<open>e\<close>;
  \<^item> \<open>Port_occupied n\<close>: error, port \<open>n\<close> is occupied;
  \<^item> \<open>Port_occupied_advice\<close>: close the other programs that use the port, or
    change the \<open>PORT\<close> variable to another port.
\<close>

datatype line =
    Title_Custom | Title_PWA
  | Port_is nat | Directory_is | Current_directory_is
  | Visit nat | Open_in_browser nat | Starting_on nat
  | Press_ctrl_c | Rule
  | Running_at nat
  | Server_stopped
  | Start_failed exn
  | Port_occupied nat | Port_occupied_advice

text \<open>
  The calls a run of \<open>main\<close> makes, in order: \<open>os.chdir\<close>, \<open>print\<close>, the
  construction of the \<open>TCPServer\<close> on a port (which binds and listens),
  \<open>serve_forever\<close>, and the \<open>server_close\<close> with which the \<open>with\<close> statement ends.
\<close>

datatype effect =
    Chdir string
  | Print line
  | TCPServer nat
  | Serve_forever
  | Server_close

text \<open>
  How \<open>main\<close> ends: it returns, it calls \<open>sys.exit\<close>, or an exception leaves it.
  When \<open>main\<close> returns the script has nothing left to run and the process ends with
  status 0; \<open>sys.exit(n)\<close> ends it with status \<open>n\<close>. An exception that leaves
  \<open>main\<close> is the interpreter's to report: it prints the traceback, which ends with
  the error's message, and for an exception derived from \<open>Exception\<close> the process
  ends with status 1 (for the others the status depends on the exception and is not
  given here).
\<close>

datatype outcome = Returns | Sys_exit int | Propagates exn

fun process_status :: "outcome \<Rightarrow> int option" where
  "process_status Returns = Some 0"
| "process_status (Sys_exit n) = Some n"
| "process_status (Propagates e) =
     (case e of
        KeyboardInterrupt \<Rightarrow> None
      | OSError n m \<Rightarrow> Some 1
      | Exception m \<Rightarrow> Some 1
      | BaseException m \<Rightarrow> None)"


text \<open>
  What happens inside the \<open>try\<close> block is the environment's: the constructor of the
  server raises, or the server is up and \<open>serve_forever\<close> raises (an interrupt
  arrives as \<open>KeyboardInterrupt\<close>) or returns.
\<close>

datatype run = Bind_raises exn | Serve_raises exn | Serve_returns

definition PORT :: nat where
  "PORT = 8080"

subsection \<open>dev/tools/server.py: main\<close>

text \<open>
  The arguments are \<open>__file__\<close>, the exception \<open>os.chdir\<close> raises (if any) and what
  happens in the \<open>try\<close> block. \<open>Custom_except\<close> is the pair of \<open>except\<close> clauses.
\<close>

definition Custom_except :: "effect list \<Rightarrow> exn \<Rightarrow> effect list \<times> outcome" where
  "Custom_except tr e =
     (case e of
        KeyboardInterrupt \<Rightarrow> (tr @ [Print Server_stopped], Sys_exit 0)
      | OSError n m \<Rightarrow> (tr @ [Print (Start_failed e)], Sys_exit 1)
      | Exception m \<Rightarrow> (tr @ [Print (Start_failed e)], Sys_exit 1)
      | BaseException m \<Rightarrow> (tr, Propagates e))"

definition Custom_main :: "string \<Rightarrow> exn option \<Rightarrow> run \<Rightarrow> effect list \<times> outcome" where
  "Custom_main file chdir_raises r =
     (let t0 = [Chdir (dirname (dirname (dirname file)))]
      in case chdir_raises of
        Some e \<Rightarrow> (t0, Propagates e)
      | None \<Rightarrow>
         (let t1 = t0 @ [Print Title_Custom, Print (Port_is PORT), Print Directory_is,
                        Print (Visit PORT), Print Press_ctrl_c, Print Rule]
          in case r of
            Bind_raises e \<Rightarrow> Custom_except (t1 @ [TCPServer PORT]) e
          | Serve_raises e \<Rightarrow>
              Custom_except
                (t1 @ [TCPServer PORT, Print (Running_at PORT), Serve_forever, Server_close]) e
          | Serve_returns \<Rightarrow>
              (t1 @ [TCPServer PORT, Print (Running_at PORT), Serve_forever, Server_close],
               Returns)))"

subsection \<open>server.py: main\<close>

definition PWA_except :: "effect list \<Rightarrow> exn \<Rightarrow> effect list \<times> outcome" where
  "PWA_except tr e =
     (case e of
        KeyboardInterrupt \<Rightarrow> (tr @ [Print Server_stopped], Returns)
      | OSError n m \<Rightarrow>
          (if n = Some 48
           then (tr @ [Print (Port_occupied PORT), Print Port_occupied_advice], Sys_exit 1)
           else (tr @ [Print (Start_failed e)], Sys_exit 1))
      | Exception m \<Rightarrow> (tr, Propagates e)
      | BaseException m \<Rightarrow> (tr, Propagates e))"

definition PWA_main :: "string \<Rightarrow> exn option \<Rightarrow> run \<Rightarrow> effect list \<times> outcome" where
  "PWA_main file chdir_raises r =
     (let script_dir = parent (parse_path file);
          t0 = [Chdir (str_path script_dir)]
      in case chdir_raises of
        Some e \<Rightarrow> (t0, Propagates e)
      | None \<Rightarrow>
         (let t1 = t0 @ [Print Title_PWA, Print Current_directory_is,
                        Print (Starting_on PORT), Print (Open_in_browser PORT),
                        Print Press_ctrl_c, Print Rule]
          in case r of
            Bind_raises e \<Rightarrow> PWA_except (t1 @ [TCPServer PORT]) e
          | Serve_raises e \<Rightarrow>
              PWA_except (t1 @ [TCPServer PORT, Serve_forever, Server_close]) e
          | Serve_returns \<Rightarrow>
              (t1 @ [TCPServer PORT, Serve_forever, Server_close], Returns)))"

section \<open>What the blocks of the methods add\<close>

text \<open>
  The lines each block of the two \<open>end_headers\<close> methods queues, as functions of the
  path, and the calls each \<open>main\<close> makes before its \<open>try\<close> statement. The lemmas
  \<open>Custom_end_headers_wfile\<close>, \<open>PWA_end_headers_wfile\<close>, \<open>Custom_main_bind\<close> and their
  companions below prove that the methods do exactly these.
\<close>

definition cors_lines :: "hline list" where
  "cors_lines =
     [Header ''Access-Control-Allow-Origin'' ''*'',
      Header ''Access-Control-Allow-Methods'' ''GET, POST, OPTIONS'',
      Header ''Access-Control-Allow-Headers'' ''Content-Type'']"

definition Custom_cache_control :: "string \<Rightarrow> hline list" where
  "Custom_cache_control p =
     (if endswith p ''.js'' then [Header ''Cache-Control'' ''no-cache''] else [])"

definition PWA_content_type :: "string \<Rightarrow> hline list" where
  "PWA_content_type p =
     (if endswith p ''.json'' then [Header ''Content-Type'' ''application/json'']
      else if endswith p ''.js'' then [Header ''Content-Type'' ''application/javascript'']
      else if endswith p ''.svg'' then [Header ''Content-Type'' ''image/svg+xml'']
      else [])"

definition PWA_cache_control :: "string \<Rightarrow> hline list" where
  "PWA_cache_control p =
     (if endswith_any p [''.js'', ''.css'', ''.svg'', ''.png'', ''.jpg'']
      then [Header ''Cache-Control'' ''public, max-age=31536000'']
      else if endswith p ''.html'' then [Header ''Cache-Control'' ''no-cache'']
      else [])"

definition Custom_prologue :: "string \<Rightarrow> effect list" where
  "Custom_prologue file =
     [Chdir (dirname (dirname (dirname file))),
      Print Title_Custom, Print (Port_is PORT), Print Directory_is,
      Print (Visit PORT), Print Press_ctrl_c, Print Rule]"

definition PWA_prologue :: "string \<Rightarrow> effect list" where
  "PWA_prologue file =
     [Chdir (str_path (parent (parse_path file))),
      Print Title_PWA, Print Current_directory_is, Print (Starting_on PORT),
      Print (Open_in_browser PORT), Print Press_ctrl_c, Print Rule]"

section \<open>Observations and the tables of the specification\<close>

text \<open>
  The values of a header field in a sequence of lines, in order. HTTP field names are
  compared without regard to case: the library itself writes \<open>Content-type\<close>, the
  handlers write \<open>Content-Type\<close>.
\<close>

definition ascii_lower :: "char \<Rightarrow> char" where
  "ascii_lower c =
     (let n = (of_char c :: nat) in if 65 \<le> n \<and> n \<le> 90 then char_of (n + 32) else c)"

definition same_field :: "string \<Rightarrow> string \<Rightarrow> bool" where
  "same_field k k' = (map ascii_lower k = map ascii_lower k')"

fun header_values :: "string \<Rightarrow> hline list \<Rightarrow> string list" where
  "header_values name [] = []"
| "header_values name (Header k v # ls) =
     (if same_field k name then v # header_values name ls else header_values name ls)"
| "header_values name (l # ls) = header_values name ls"

definition emitted :: "string option \<Rightarrow> string list" where
  "emitted v = (case v of None \<Rightarrow> [] | Some x \<Rightarrow> [x])"

text \<open>
  The Cache-Control policy of the specification: a table of rows, each a list of
  extensions and the value they select; the first row with an extension the path ends
  in decides, and no row means no header. Variant A is \<open>dev/tools/server.py\<close>, Variant B
  is \<open>server.py\<close>.
\<close>

definition policy_lookup :: "(string list \<times> string) list \<Rightarrow> string \<Rightarrow> string option" where
  "policy_lookup table p = map_option snd (find (\<lambda>row. endswith_any p (fst row)) table)"

definition cache_policy_A :: "(string list \<times> string) list" where
  "cache_policy_A = [([''.js''], ''no-cache'')]"

definition cache_policy_B :: "(string list \<times> string) list" where
  "cache_policy_B =
     [([''.js'', ''.css'', ''.svg'', ''.png'', ''.jpg''], ''public, max-age=31536000''),
      ([''.html''], ''no-cache'')]"

text \<open>
  The MIME override table, extension to MIME type, with the rows each class implements.
\<close>

definition mime_lookup :: "(string \<times> string) list \<Rightarrow> string \<Rightarrow> string option" where
  "mime_lookup table p = map_option snd (find (\<lambda>row. endswith p (fst row)) table)"

definition mime_overrides_A :: "(string \<times> string) list" where
  "mime_overrides_A =
     [(''.js'', ''application/javascript''),
      (''.ts'', ''application/typescript''),
      (''.json'', ''application/json'')]"

definition mime_overrides_B :: "(string \<times> string) list" where
  "mime_overrides_B =
     [(''.js'', ''application/javascript''),
      (''.json'', ''application/json''),
      (''.svg'', ''image/svg+xml'')]"

text \<open>Every extension that some rule of either class tests.\<close>

definition listed_extensions :: "string list" where
  "listed_extensions = [''.js'', ''.json'', ''.svg'', ''.css'', ''.png'', ''.jpg'', ''.html'']"



section \<open>Properties\<close>

subsection \<open>Basic facts\<close>

lemma endswith_iff: "endswith s suf \<longleftrightarrow> (\<exists>p. s = p @ suf)"
proof
  assume "endswith s suf"
  then have "s = take (length s - length suf) s @ suf"
    by (metis append_take_drop_id endswith_def)
  then show "\<exists>p. s = p @ suf" ..
next
  assume "\<exists>p. s = p @ suf"
  then show "endswith s suf"
    by (auto simp: endswith_def)
qed

lemma path_send_header [simp]: "path (send_header k v s) = path s"
  by (simp add: send_header_def)

lemma wfile_send_header [simp]: "wfile (send_header k v s) = wfile s"
  by (simp add: send_header_def)

lemma buffer_send_header [simp]:
  "headers_buffer (send_header k v s) = headers_buffer s @ [Header k v]"
  by (simp add: send_header_def)

lemma wfile_super_end_headers [simp]:
  "wfile (super_end_headers s) = wfile s @ headers_buffer s @ [Blank]"
  by (simp add: super_end_headers_def)

lemma Custom_end_headers_wfile:
  "wfile (Custom_end_headers s) =
     wfile s @ headers_buffer s @ cors_lines @ Custom_cache_control (path s) @ [Blank]"
proof -
  define s3 where "s3 = send_header ''Access-Control-Allow-Headers'' ''Content-Type''
     (send_header ''Access-Control-Allow-Methods'' ''GET, POST, OPTIONS''
       (send_header ''Access-Control-Allow-Origin'' ''*'' s))"
  define s4 where "s4 = (if endswith (path s3) ''.js''
                then send_header ''Cache-Control'' ''no-cache'' s3
                else s3)"
  have unfolded: "Custom_end_headers s = super_end_headers s4"
    by (simp only: Custom_end_headers_def Let_def s4_def s3_def)
  have s3: "path s3 = path s" "wfile s3 = wfile s"
    "headers_buffer s3 = headers_buffer s @ cors_lines"
    by (simp_all add: s3_def cors_lines_def)
  have s4: "wfile s4 = wfile s"
    "headers_buffer s4 = headers_buffer s @ cors_lines @ Custom_cache_control (path s)"
    by (simp_all add: s4_def s3 Custom_cache_control_def)
  show ?thesis
    by (simp add: unfolded s4)
qed

lemma PWA_end_headers_wfile:
  "wfile (PWA_end_headers s) =
     wfile s @ headers_buffer s @ cors_lines @ PWA_content_type (path s) @
     PWA_cache_control (path s) @ [Blank]"
proof -
  define s3 where "s3 = send_header ''Access-Control-Allow-Headers'' ''Content-Type''
     (send_header ''Access-Control-Allow-Methods'' ''GET, POST, OPTIONS''
       (send_header ''Access-Control-Allow-Origin'' ''*'' s))"
  define s4 where "s4 = (if endswith (path s3) ''.json''
                then send_header ''Content-Type'' ''application/json'' s3
                else if endswith (path s3) ''.js''
                then send_header ''Content-Type'' ''application/javascript'' s3
                else if endswith (path s3) ''.svg''
                then send_header ''Content-Type'' ''image/svg+xml'' s3
                else s3)"
  define s5 where "s5 =
               (if endswith_any (path s4) [''.js'', ''.css'', ''.svg'', ''.png'', ''.jpg'']
                then send_header ''Cache-Control'' ''public, max-age=31536000'' s4
                else if endswith (path s4) ''.html''
                then send_header ''Cache-Control'' ''no-cache'' s4
                else s4)"
  have unfolded: "PWA_end_headers s = super_end_headers s5"
    by (simp only: PWA_end_headers_def Let_def s5_def s4_def s3_def)
  have s3: "path s3 = path s" "wfile s3 = wfile s"
    "headers_buffer s3 = headers_buffer s @ cors_lines"
    by (simp_all add: s3_def cors_lines_def)
  have s4: "path s4 = path s" "wfile s4 = wfile s"
    "headers_buffer s4 = headers_buffer s @ cors_lines @ PWA_content_type (path s)"
    by (simp_all add: s4_def s3 PWA_content_type_def)
  have s5: "wfile s5 = wfile s"
    "headers_buffer s5 =
       headers_buffer s @ cors_lines @ PWA_content_type (path s) @ PWA_cache_control (path s)"
    by (simp_all add: s5_def s4 PWA_cache_control_def)
  show ?thesis
    by (simp add: unfolded s5)
qed

lemma Blank_notin_added:
  "Blank \<notin> set (Custom_cache_control p)"
  "Blank \<notin> set (PWA_content_type p @ PWA_cache_control p)"
  by (simp_all add: Custom_cache_control_def PWA_content_type_def PWA_cache_control_def)

subsection \<open>CORS headers\<close>

text \<open>
  In both classes, whenever \<open>end_headers\<close> runs (any method, any path), it writes
  the three CORS headers \<open>Access-Control-Allow-Origin: *\<close>,
  \<open>Access-Control-Allow-Methods: GET, POST, OPTIONS\<close> and
  \<open>Access-Control-Allow-Headers: Content-Type\<close>. They follow everything that was
  already queued for the response (the status line and the library's own headers) and
  precede the blank line with which the base class ends the header block.
\<close>

lemma cors_headers_when_headers_end:
  "(\<exists>extra. wfile (Custom_end_headers s) =
       wfile s @ headers_buffer s @
       [Header ''Access-Control-Allow-Origin'' ''*'',
        Header ''Access-Control-Allow-Methods'' ''GET, POST, OPTIONS'',
        Header ''Access-Control-Allow-Headers'' ''Content-Type''] @ extra @ [Blank]
       \<and> Blank \<notin> set extra)
   \<and> (\<exists>extra. wfile (PWA_end_headers s) =
       wfile s @ headers_buffer s @
       [Header ''Access-Control-Allow-Origin'' ''*'',
        Header ''Access-Control-Allow-Methods'' ''GET, POST, OPTIONS'',
        Header ''Access-Control-Allow-Headers'' ''Content-Type''] @ extra @ [Blank]
       \<and> Blank \<notin> set extra)"
proof
  have "wfile (Custom_end_headers s) =
       wfile s @ headers_buffer s @
       [Header ''Access-Control-Allow-Origin'' ''*'',
        Header ''Access-Control-Allow-Methods'' ''GET, POST, OPTIONS'',
        Header ''Access-Control-Allow-Headers'' ''Content-Type''] @
       Custom_cache_control (path s) @ [Blank]"
    by (simp only: Custom_end_headers_wfile cors_lines_def)
  then show "\<exists>extra. wfile (Custom_end_headers s) =
       wfile s @ headers_buffer s @
       [Header ''Access-Control-Allow-Origin'' ''*'',
        Header ''Access-Control-Allow-Methods'' ''GET, POST, OPTIONS'',
        Header ''Access-Control-Allow-Headers'' ''Content-Type''] @ extra @ [Blank]
       \<and> Blank \<notin> set extra"
    using Blank_notin_added(1) by blast
next
  have "wfile (PWA_end_headers s) =
       wfile s @ headers_buffer s @
       [Header ''Access-Control-Allow-Origin'' ''*'',
        Header ''Access-Control-Allow-Methods'' ''GET, POST, OPTIONS'',
        Header ''Access-Control-Allow-Headers'' ''Content-Type''] @
       (PWA_content_type (path s) @ PWA_cache_control (path s)) @ [Blank]"
    by (simp only: PWA_end_headers_wfile cors_lines_def append_assoc)
  then show "\<exists>extra. wfile (PWA_end_headers s) =
       wfile s @ headers_buffer s @
       [Header ''Access-Control-Allow-Origin'' ''*'',
        Header ''Access-Control-Allow-Methods'' ''GET, POST, OPTIONS'',
        Header ''Access-Control-Allow-Headers'' ''Content-Type''] @ extra @ [Blank]
       \<and> Blank \<notin> set extra"
    using Blank_notin_added(2) by blast
qed

subsection \<open>Header values\<close>

lemma header_values_append [simp]:
  "header_values n (xs @ ys) = header_values n xs @ header_values n ys"
  by (induction n xs rule: header_values.induct) simp_all

lemma same_field_refl [simp]: "same_field k k"
  by (simp add: same_field_def)

lemma same_field_length: "length k \<noteq> length k' \<Longrightarrow> \<not> same_field k k'"
  by (metis length_map same_field_def)

lemma header_values_cors [simp]:
  "header_values ''Cache-Control'' cors_lines = []"
  "header_values ''Content-Type'' cors_lines = []"
  by (simp_all add: cors_lines_def same_field_length)

lemma cache_not_type [simp]:
  "\<not> same_field ''Cache-Control'' ''Content-Type''"
  "\<not> same_field ''Content-Type'' ''Cache-Control''"
  by (simp_all add: same_field_length)

lemma Content_type_lower: "same_field ''Content-type'' ''Content-Type''"
  unfolding same_field_def by code_simp

lemma endswith_suffix: "endswith s suf = suffix suf s"
  by (simp add: endswith_iff suffix_def)

lemma endswith_last: "endswith s suf \<Longrightarrow> suf \<noteq> [] \<Longrightarrow> last s = last suf"
  by (auto simp: endswith_iff)

lemma json_not_js: "endswith p ''.json'' \<Longrightarrow> \<not> endswith p ''.js''"
  using endswith_last [of p "''.json''"] endswith_last [of p "''.js''"] by auto

subsection \<open>Cache-Control\<close>

lemma cache_values_Custom:
  "header_values ''Cache-Control'' (Custom_cache_control p) =
     emitted (policy_lookup cache_policy_A p)"
  by (simp add: Custom_cache_control_def policy_lookup_def cache_policy_A_def emitted_def
      endswith_any_def)

lemma cache_values_PWA:
  "header_values ''Cache-Control'' (PWA_cache_control p) =
     emitted (policy_lookup cache_policy_B p)"
  by (simp add: PWA_cache_control_def policy_lookup_def cache_policy_B_def emitted_def
      endswith_any_def)

lemma cache_values_PWA_type [simp]:
  "header_values ''Cache-Control'' (PWA_content_type p) = []"
  by (simp add: PWA_content_type_def)

text \<open>
  C2, as the code has it. Whenever \<open>end_headers\<close> runs on a handler whose path is
  set, the Cache-Control values it adds to the response are exactly what the variant's
  table gives for \<open>self.path\<close> as it stands then: in \<open>dev/tools/server.py\<close> \<open>no-cache\<close> for a path ending in \<open>.js\<close> and
  nothing otherwise; in \<open>server.py\<close> \<open>public, max-age=31536000\<close> for a path ending in
  \<open>.js\<close>, \<open>.css\<close>, \<open>.svg\<close>, \<open>.png\<close> or \<open>.jpg\<close>, \<open>no-cache\<close> for one ending in \<open>.html\<close>,
  and nothing otherwise. \<open>self.path\<close> is the request path when the base class is
  called, except that \<open>server.py\<close> has rewritten the path \<open>/\<close> of a \<open>GET\<close> to
  \<open>/main.html\<close>; \<open>dev/tools/server.py\<close> never rewrites it.
\<close>

theorem cache_control_follows_self_path:
  "header_values ''Cache-Control'' (wfile (Custom_end_headers s)) =
     header_values ''Cache-Control'' (wfile s @ headers_buffer s) @
     emitted (policy_lookup cache_policy_A (path s))
   \<and> header_values ''Cache-Control'' (wfile (PWA_end_headers s)) =
     header_values ''Cache-Control'' (wfile s @ headers_buffer s) @
     emitted (policy_lookup cache_policy_B (path s))
   \<and> Custom_handle base s = base (command s) s
   \<and> PWA_handle base s =
       base (command s)
         (if command s = ''GET'' \<and> path s = ''/'' then s\<lparr>path := ''/main.html''\<rparr> else s)"
  by (simp add: Custom_end_headers_wfile PWA_end_headers_wfile cache_values_Custom
      cache_values_PWA Custom_handle_def PWA_handle_def PWA_do_GET_def)

text \<open>
  C2 fails as the specification states it, for the request path \<open>/\<close> in \<open>server.py\<close>:
  the table gives no Cache-Control for \<open>/\<close>, yet a \<open>GET\<close> of \<open>/\<close>, served by a base
  class that ends the headers of its response, carries the \<open>no-cache\<close> of the \<open>.html\<close>
  rule, since the path is rewritten before the headers are ended.
\<close>

theorem root_request_gets_no_cache:
  "policy_lookup cache_policy_B ''/'' = None
   \<and> header_values ''Cache-Control''
       (wfile (PWA_handle (\<lambda>c. PWA_end_headers)
          \<lparr>command = ''GET'', path = ''/'', headers_buffer = [Status_line 200 ''OK''],
           wfile = []\<rparr>)) = [''no-cache'']"
  by (simp add: PWA_handle_def PWA_do_GET_def PWA_end_headers_wfile PWA_content_type_def
      PWA_cache_control_def policy_lookup_def cache_policy_B_def endswith_any_def
      endswith_def)

subsection \<open>MIME types\<close>

lemma type_values_PWA:
  "header_values ''Content-Type'' (PWA_content_type p) = emitted (mime_lookup mime_overrides_B p)"
  using json_not_js [of p]
  by (simp add: PWA_content_type_def mime_lookup_def mime_overrides_B_def emitted_def)

lemma type_values_PWA_cache [simp]:
  "header_values ''Content-Type'' (PWA_cache_control p) = []"
  by (simp add: PWA_cache_control_def)

text \<open>
  What \<open>guess_type\<close> of \<open>dev/tools/server.py\<close> is written to do, were the inherited
  method to return a pair of type and encoding: the table's type for a path ending in
  \<open>.js\<close>, \<open>.ts\<close> or \<open>.json\<close>, the inherited type otherwise.
\<close>

lemma Custom_guess_type_pair:
  "g p = PyTuple [mimetype, encoding] \<Longrightarrow>
   Custom_guess_type g p =
     Inr (PyTuple [case mime_lookup mime_overrides_A p of Some m \<Rightarrow> PyStr m | None \<Rightarrow> mimetype,
                   encoding])"
  by (simp add: Custom_guess_type_def mime_lookup_def mime_overrides_A_def)

text \<open>
  The inherited \<open>guess_type\<close> of the library returns a string of the form
  \<open>type/subtype\<close>, not a pair. On a string that is not two characters long the
  unpacking raises \<open>ValueError\<close>: \<open>guess_type\<close> of \<open>dev/tools/server.py\<close> then returns
  no type, for any path, and \<open>send_head\<close> is left before anything is queued.
\<close>

lemma unpack2_string: "length t \<noteq> 2 \<Longrightarrow> unpack2 (PyStr t) = Inl ValueError"
  by (cases t rule: remdups_adj.cases) (auto simp: neq_Nil_conv)

lemma Custom_guess_type_string:
  "g p = PyStr t \<Longrightarrow> length t \<noteq> 2 \<Longrightarrow> Custom_guess_type g p = Inl ValueError"
  by (simp add: Custom_guess_type_def unpack2_string)

lemma Custom_send_head_raises:
  "g (translate_path (path s)) = PyStr t \<Longrightarrow> length t \<noteq> 2 \<Longrightarrow>
   send_head (Custom_guess_type g) Custom_end_headers translate_path queue s = Inl ValueError"
  by (simp add: send_head_def Custom_guess_type_string)

lemma no_type_for_ts: "PWA_content_type ''/app.ts'' = []"
  by (simp add: PWA_content_type_def endswith_def)

text \<open>
  C1, as the code has it. In \<open>server.py\<close> there is no \<open>guess_type\<close>; whenever
  \<open>end_headers\<close> runs it adds a Content-Type header with the table's MIME type when
  \<open>self.path\<close> ends in \<open>.js\<close> (\<open>application/javascript\<close>), \<open>.json\<close>
  (\<open>application/json\<close>) or \<open>.svg\<close> (\<open>image/svg+xml\<close>), whatever the library's lookup
  has queued, and adds none for any other path, \<open>.ts\<close> included.
\<close>

theorem PWA_content_type_follows_table:
  "header_values ''Content-Type'' (wfile (PWA_end_headers s)) =
     header_values ''Content-Type'' (wfile s @ headers_buffer s) @
     emitted (mime_lookup mime_overrides_B (path s))"
  by (simp add: PWA_end_headers_wfile type_values_PWA)

text \<open>
  C1 fails as the specification states it, in \<open>server.py\<close> for \<open>.ts\<close>: for the path
  \<open>/app.ts\<close>, with the library's own Content-type header queued, the response carries
  that header only.
\<close>

theorem typescript_not_overridden_in_PWA:
  "header_values ''Content-Type''
     (wfile (PWA_end_headers
        \<lparr>command = ''GET'', path = ''/app.ts'',
         headers_buffer = [Status_line 200 ''OK'', Header ''Content-type'' ''video/mp2t''],
         wfile = []\<rparr>)) = [''video/mp2t'']"
  by (simp add: PWA_end_headers_wfile no_type_for_ts Content_type_lower)

lemma PWA_type_value:
  assumes "endswith_any p [''.js'', ''.json'', ''.svg'']"
  shows "header_values ''Content-Type'' (PWA_content_type p) =
     [if endswith p ''.json'' then ''application/json''
      else if endswith p ''.js'' then ''application/javascript''
      else ''image/svg+xml'']"
  using assms by (auto simp: PWA_content_type_def endswith_any_def)

lemma app_js_listed: "endswith_any ''/app.js'' [''.js'', ''.json'', ''.svg'']"
  by (simp add: endswith_any_def endswith_def)

lemma app_js_not_json: "\<not> endswith ''/app.js'' ''.json''" "endswith ''/app.js'' ''.js''"
  by (simp_all add: endswith_def)

text \<open>
  C8. In \<open>server.py\<close>, for a path ending in \<open>.js\<close>, \<open>.json\<close> or \<open>.svg\<close>, the header block
  that \<open>end_headers\<close> writes starts with every line that was queued before (so a
  Content-type header the library has queued stays in it), and its Content-Type
  values are those queued before followed by the one \<open>end_headers\<close> adds: a response
  for which the library queued one Content-type header carries two.
\<close>

theorem second_content_type_header:
  assumes "endswith_any (path s) [''.js'', ''.json'', ''.svg'']"
  shows "take (length (headers_buffer s)) (drop (length (wfile s)) (wfile (PWA_end_headers s)))
       = headers_buffer s
   \<and> header_values ''Content-Type'' (drop (length (wfile s)) (wfile (PWA_end_headers s))) =
       header_values ''Content-Type'' (headers_buffer s) @
       [if endswith (path s) ''.json'' then ''application/json''
        else if endswith (path s) ''.js'' then ''application/javascript''
        else ''image/svg+xml'']"
  using PWA_type_value [OF assms]
  by (simp add: PWA_end_headers_wfile)

theorem second_content_type_header_witness:
  "header_values ''Content-Type''
     (drop (length ([]::hline list))
       (wfile (PWA_end_headers
         \<lparr>command = ''GET'', path = ''/app.js'',
          headers_buffer = [Status_line 200 ''OK'', Header ''Content-type'' ''text/javascript''],
          wfile = []\<rparr>))) = [''text/javascript'', ''application/javascript'']"
  using second_content_type_header
    [of "\<lparr>command = ''GET'', path = ''/app.js'',
          headers_buffer = [Status_line 200 ''OK'', Header ''Content-type'' ''text/javascript''],
          wfile = []\<rparr>"]
    app_js_listed app_js_not_json Content_type_lower
  by simp

subsection \<open>File requests in dev/tools/server.py\<close>

text \<open>
  C3. The three CORS headers are on every response whose headers \<open>end_headers\<close> ends
  (\<open>cors_headers_when_headers_end\<close>), but \<open>dev/tools/server.py\<close> does not get that far
  for a file: for the request \<open>GET /app.js\<close>, with the inherited \<open>guess_type\<close>
  returning the string \<open>text/javascript\<close>, \<open>send_head\<close> ends in \<open>ValueError\<close> raised by
  the handler's \<open>guess_type\<close>. No handler state results: no status line and no header,
  CORS or other, is queued or written.
\<close>

theorem file_request_in_Custom_raises:
  "send_head (Custom_guess_type (\<lambda>p. PyStr ''text/javascript'')) Custom_end_headers
     translate_path queue
     \<lparr>command = ''GET'', path = ''/app.js'', headers_buffer = [], wfile = []\<rparr> =
   Inl ValueError"
  by (simp add: send_head_def Custom_guess_type_def)

subsection \<open>Query strings\<close>

lemma endswith_query:
  assumes "CHR ''?'' \<notin> set ext"
  shows "endswith (p @ CHR ''?'' # q) ext \<longleftrightarrow> endswith q ext"
proof -
  have "suffix ext ((p @ ''?'') @ q) \<longleftrightarrow> suffix ext q"
  proof
    assume "suffix ext ((p @ ''?'') @ q)"
    then consider "suffix ext q" | xs where "suffix xs (p @ ''?'')" "ext = xs @ q" "xs \<noteq> []"
      by (metis append_Nil suffix_append suffix_order.refl)
    then show "suffix ext q"
    proof cases
      case 1
      then show ?thesis .
    next
      case 2
      from 2(1,3) have "CHR ''?'' \<in> set xs"
        by (auto simp: suffix_def append_eq_append_conv2 Cons_eq_append_conv)
      with 2(2) assms show ?thesis by simp
    qed
  next
    assume "suffix ext q"
    then show "suffix ext ((p @ ''?'') @ q)"
      by (rule suffix_appendI)
  qed
  then show ?thesis
    by (simp add: endswith_suffix)
qed

lemma query_decides:
  "Custom_cache_control (p @ CHR ''?'' # q) = Custom_cache_control q"
  "PWA_content_type (p @ CHR ''?'' # q) = PWA_content_type q"
  "PWA_cache_control (p @ CHR ''?'' # q) = PWA_cache_control q"
  by (simp_all add: Custom_cache_control_def PWA_content_type_def PWA_cache_control_def
      endswith_any_def endswith_query)

lemma unlisted_adds_nothing:
  assumes "\<not> endswith_any q listed_extensions"
  shows "Custom_cache_control q = []" and "PWA_content_type q = []"
    and "PWA_cache_control q = []"
  using assms
  by (simp_all add: Custom_cache_control_def PWA_content_type_def PWA_cache_control_def
      endswith_any_def listed_extensions_def)

lemma v1_unlisted: "\<not> endswith_any ''v=1'' listed_extensions"
  by (simp add: endswith_any_def listed_extensions_def endswith_def)

lemma js_in_query:
  "Custom_cache_control ''/page?src=app.js'' = [Header ''Cache-Control'' ''no-cache'']"
  by (simp add: Custom_cache_control_def endswith_def)

text \<open>
  C10, as the code has it. Both \<open>end_headers\<close> methods test the raw request target,
  query string included. For a target \<open>p?q\<close> they write what they would write for
  the path \<open>q\<close> alone: the end of the query string decides. When the query string
  does not end in one of the extensions the rules test (as in \<open>/app.js?v=1\<close>), no rule
  matches, whatever \<open>p\<close> ends in: only the CORS headers are added, with no
  Cache-Control and no Content-Type.
\<close>

theorem query_string_decides_extension_rules:
  assumes "path s = p @ ''?'' @ q"
  shows "wfile (Custom_end_headers s) = wfile (Custom_end_headers (s\<lparr>path := q\<rparr>))
    \<and> wfile (PWA_end_headers s) = wfile (PWA_end_headers (s\<lparr>path := q\<rparr>))
    \<and> (\<not> endswith_any q listed_extensions \<longrightarrow>
         wfile (Custom_end_headers s) = wfile s @ headers_buffer s @ cors_lines @ [Blank]
       \<and> wfile (PWA_end_headers s) = wfile s @ headers_buffer s @ cors_lines @ [Blank])"
  using assms
  by (simp add: Custom_end_headers_wfile PWA_end_headers_wfile query_decides
      unlisted_adds_nothing)

theorem query_string_decides_extension_rules_witness:
  "wfile (Custom_end_headers
       \<lparr>command = ''GET'', path = ''/app.js?v=1'',
        headers_buffer = [Status_line 200 ''OK''], wfile = []\<rparr>) =
     [Status_line 200 ''OK''] @ cors_lines @ [Blank]
   \<and> wfile (PWA_end_headers
       \<lparr>command = ''GET'', path = ''/app.js?v=1'',
        headers_buffer = [Status_line 200 ''OK''], wfile = []\<rparr>) =
     [Status_line 200 ''OK''] @ cors_lines @ [Blank]"
proof -
  let ?s = "\<lparr>command = ''GET'', path = ''/app.js?v=1'',
         headers_buffer = [Status_line 200 ''OK''], wfile = []\<rparr>"
  have "path ?s = ''/app.js'' @ ''?'' @ ''v=1''"
    by simp
  from query_string_decides_extension_rules [OF this] v1_unlisted
  have "wfile (Custom_end_headers ?s) = wfile ?s @ headers_buffer ?s @ cors_lines @ [Blank]
      \<and> wfile (PWA_end_headers ?s) = wfile ?s @ headers_buffer ?s @ cors_lines @ [Blank]"
    by blast
  then show ?thesis
    by simp
qed

text \<open>
  C10 fails as the specification states it, for a query string that itself ends in an
  extension: the target \<open>/page?src=app.js\<close> carries a query string and gets the
  Cache-Control header of the \<open>.js\<close> rule in \<open>dev/tools/server.py\<close>.
\<close>

theorem query_ending_in_js_matches:
  "header_values ''Cache-Control''
     (wfile (Custom_end_headers
        \<lparr>command = ''GET'', path = ''/page?src=app.js'',
         headers_buffer = [Status_line 200 ''OK''], wfile = []\<rparr>)) = [''no-cache'']"
  by (simp add: Custom_end_headers_wfile js_in_query)

subsection \<open>The root path\<close>


text \<open>
  C9. In \<open>server.py\<close>, for every request method other than \<open>GET\<close> (\<open>HEAD\<close> among
  them) the handler state goes to the base class unchanged, the path \<open>/\<close> included;
  for \<open>GET\<close> the path \<open>/\<close> reaches the base class as \<open>/main.html\<close>.
\<close>

theorem rewrite_only_for_GET:
  "(command s \<noteq> ''GET'' \<longrightarrow> PWA_handle base s = base (command s) s)
   \<and> (command s = ''GET'' \<longrightarrow> path s = ''/'' \<longrightarrow>
        PWA_handle base s = base ''GET'' (s\<lparr>path := ''/main.html''\<rparr>))"
  by (simp add: PWA_handle_def PWA_do_GET_def)

theorem rewrite_only_for_GET_witness:
  "PWA_handle (\<lambda>c s. send_header c (path s) s)
     \<lparr>command = ''HEAD'', path = ''/'', headers_buffer = [], wfile = []\<rparr> =
     \<lparr>command = ''HEAD'', path = ''/'', headers_buffer = [Header ''HEAD'' ''/''], wfile = []\<rparr>
   \<and> PWA_handle (\<lambda>c s. send_header c (path s) s)
     \<lparr>command = ''GET'', path = ''/'', headers_buffer = [], wfile = []\<rparr> =
     \<lparr>command = ''GET'', path = ''/main.html'',
      headers_buffer = [Header ''GET'' ''/main.html''], wfile = []\<rparr>"
  using rewrite_only_for_GET
    [of "\<lparr>command = ''HEAD'', path = ''/'', headers_buffer = [], wfile = []\<rparr>"
        "\<lambda>c s. send_header c (path s) s"]
    rewrite_only_for_GET
    [of "\<lparr>command = ''GET'', path = ''/'', headers_buffer = [], wfile = []\<rparr>"
        "\<lambda>c s. send_header c (path s) s"]
  by (simp add: send_header_def)

subsection \<open>Startup and shutdown\<close>


lemma Custom_main_serve:
  "Custom_main file None (Serve_raises e) =
     Custom_except (Custom_prologue file @
       [TCPServer PORT, Print (Running_at PORT), Serve_forever, Server_close]) e"
  by (simp add: Custom_main_def Custom_prologue_def)



lemma PWA_main_serve:
  "PWA_main file None (Serve_raises e) =
     PWA_except (PWA_prologue file @ [TCPServer PORT, Serve_forever, Server_close]) e"
  by (simp add: PWA_main_def PWA_prologue_def)


text \<open>
  C6. In both programs, when \<open>serve_forever\<close> is interrupted by the operator
  (\<open>KeyboardInterrupt\<close>) the serve loop is left and the server closed, the line saying
  that the server has stopped is printed, and the process ends with status 0:
  \<open>dev/tools/server.py\<close> calls \<open>sys.exit(0)\<close>, \<open>server.py\<close> returns from \<open>main\<close>.
\<close>

theorem interrupt_stops_cleanly:
  "Custom_main file None (Serve_raises KeyboardInterrupt) =
     (Custom_prologue file @
        [TCPServer PORT, Print (Running_at PORT), Serve_forever, Server_close,
         Print Server_stopped], Sys_exit 0)
   \<and> process_status (snd (Custom_main file None (Serve_raises KeyboardInterrupt))) = Some 0
   \<and> PWA_main file None (Serve_raises KeyboardInterrupt) =
     (PWA_prologue file @
        [TCPServer PORT, Serve_forever, Server_close, Print Server_stopped], Returns)
   \<and> process_status (snd (PWA_main file None (Serve_raises KeyboardInterrupt))) = Some 0"
  by (simp add: Custom_main_serve PWA_main_serve Custom_except_def PWA_except_def)





subsection \<open>The working directory\<close>





















end
